theory Spec2Isabelle
  imports Complex_Main
begin

section \<open>JavaScript numbers and bignumber.js decimals\<close>

text \<open>
  The strategy in \<^verbatim>\<open>src/strategies/marketmaker.js\<close> computes with two kinds of numeric
  values: JavaScript numbers (IEEE 754 binary64) and \<^verbatim>\<open>BigNumber\<close> decimals of the
  bignumber.js library, which the file imports as \<^verbatim>\<open>BN\<close> and uses with the library's default
  configuration.

  A finite value of either kind is written as a rational. A JavaScript number is
  represented by the decimal it prints as (\<^verbatim>\<open>String(v)\<close>, the shortest decimal that reads
  back as the same binary64 value); \<^verbatim>\<open>new BN(v)\<close> builds its decimal from exactly that text,
  so on this representation \<^verbatim>\<open>new BN(v)\<close> keeps the value. The way back, unary \<^verbatim>\<open>+\<close> or
  \<^verbatim>\<open>Math.max\<close> on a \<^verbatim>\<open>BigNumber\<close>, reads the decimal text of the \<^verbatim>\<open>BigNumber\<close> as a number
  and so rounds to the nearest binary64 value: that is \<open>toNumber\<close> below. The two infinities
  are not told apart (the sign of a zero divisor is not tracked).
\<close>

datatype jsnum = Finite rat | Infinite | NaN

text \<open>Powers of two and of ten with an integer exponent.\<close>

definition pow2 :: "int \<Rightarrow> rat" where
  "pow2 e = (if 0 \<le> e then of_int (2 ^ nat e) else 1 / of_int (2 ^ nat (- e)))"

definition pow10 :: "int \<Rightarrow> rat" where
  "pow10 e = (if 0 \<le> e then of_int (10 ^ nat e) else 1 / of_int (10 ^ nat (- e)))"

text \<open>The number of digits of a positive integer \<open>n\<close> in base \<open>b\<close>.\<close>

function digits_in :: "int \<Rightarrow> int \<Rightarrow> nat" where
  "digits_in b n = (if n \<le> 0 \<or> b < 2 then 0 else Suc (digits_in b (n div b)))"
  by pat_completeness auto
termination
  by (relation "measure (\<lambda>(b, n). nat n)") (auto simp: int_div_less_self)

text \<open>
  \<open>magnitude b pw x\<close> is the exponent \<open>e\<close> with \<open>b ^ e \<le> \<bar>x\<bar> < b ^ (e + 1)\<close> for
  \<open>x \<noteq> 0\<close>, where \<open>pw\<close> is the power function of base \<open>b\<close>.
\<close>

definition magnitude :: "int \<Rightarrow> (int \<Rightarrow> rat) \<Rightarrow> rat \<Rightarrow> int" where
  "magnitude b pw x =
     (let (p, q) = quotient_of \<bar>x\<bar>;
          e0 = int (digits_in b p) - int (digits_in b q)
      in if pw e0 \<le> \<bar>x\<bar> then e0 else e0 - 1)"

definition round_half_even :: "rat \<Rightarrow> int" where
  "round_half_even y =
     (let f = \<lfloor>y\<rfloor>; r = y - of_int f
      in if r < 1 / 2 then f else if 1 / 2 < r then f + 1 else if even f then f else f + 1)"

text \<open>
  The binary64 value nearest to \<open>x\<close> (round to nearest, ties to even), with a 53-bit
  significand and gradual underflow below \<open>2 ^ - 1022\<close>. The exponent is not bounded above
  here; \<open>toNumber\<close> checks the overflow (a rounded value of \<open>2 ^ 1024\<close> or more).
\<close>

definition binary64 :: "rat \<Rightarrow> rat" where
  "binary64 x =
     (if x = 0 then 0
      else let e = max (magnitude 2 pow2 x) (- 1022); u = pow2 (e - 52)
           in sgn x * of_int (round_half_even (\<bar>x\<bar> / u)) * u)"

text \<open>
  \<^verbatim>\<open>Number.prototype.toString\<close>: among the decimals with \<open>k\<close> significant digits that read
  back as the binary64 value \<open>d\<close>, for the least such \<open>k\<close>, the one closest to \<open>d\<close> (an even
  last digit on a tie). Only the two neighbours of \<open>d\<close> on the \<open>k\<close>-digit grid can qualify.
\<close>

definition candidate :: "rat \<Rightarrow> int \<Rightarrow> int \<Rightarrow> rat option" where
  "candidate d m k =
     (let u = pow10 (m - k + 1);
          lo = of_int \<lfloor>d / u\<rfloor> * u;
          hi = of_int \<lceil>d / u\<rceil> * u;
          oklo = (binary64 lo = d);
          okhi = (binary64 hi = d)
      in if oklo \<and> okhi then
           Some (if d - lo < hi - d then lo else if hi - d < d - lo then hi
                 else if even \<lfloor>d / u\<rfloor> then lo else hi)
         else if oklo then Some lo
         else if okhi then Some hi
         else None)"

primrec shortest :: "rat \<Rightarrow> int \<Rightarrow> int \<Rightarrow> nat \<Rightarrow> rat" where
  "shortest d m k 0 = d"
| "shortest d m k (Suc n) =
     (case candidate d m k of Some c \<Rightarrow> c | None \<Rightarrow> shortest d m (k + 1) n)"

definition toString :: "rat \<Rightarrow> rat" where
  "toString d = (if d = 0 then 0 else sgn d * shortest \<bar>d\<bar> (magnitude 10 pow10 d) 1 17)"

text \<open>
  Reading a decimal as a JavaScript number: unary \<^verbatim>\<open>+\<close> on a \<^verbatim>\<open>BigNumber\<close> or on the string
  that \<^verbatim>\<open>toFixed\<close> returns, and \<^verbatim>\<open>Math.max\<close> with a single \<^verbatim>\<open>BigNumber\<close> argument.
\<close>

definition toNumber :: "rat \<Rightarrow> jsnum" where
  "toNumber x =
     (let d = binary64 x
      in if d \<noteq> 0 \<and> 1024 \<le> magnitude 2 pow2 d then Infinite else Finite (toString d))"

definition unary_plus :: "jsnum \<Rightarrow> jsnum" where
  "unary_plus v = (case v of Finite x \<Rightarrow> toNumber x | Infinite \<Rightarrow> Infinite | NaN \<Rightarrow> NaN)"

text \<open>The division operator \<^verbatim>\<open>/\<close> of two JavaScript numbers.\<close>

definition js_divide :: "rat \<Rightarrow> rat \<Rightarrow> jsnum" where
  "js_divide a b =
     (if binary64 b = 0 then (if binary64 a = 0 then NaN else Infinite)
      else toNumber (binary64 a / binary64 b))"

subsection \<open>bignumber.js\<close>

text \<open>
  The rounding modes the strategy names, and the one the library divides with by default:
  \<^verbatim>\<open>ROUND_UP\<close> rounds away from zero, \<^verbatim>\<open>ROUND_DOWN\<close> towards zero, \<^verbatim>\<open>ROUND_HALF_UP\<close> to
  the nearest neighbour and away from zero when equidistant.
\<close>

datatype rounding_mode = ROUND_UP | ROUND_DOWN | ROUND_HALF_UP

definition DECIMAL_PLACES :: nat where
  "DECIMAL_PLACES = 20"

definition ROUNDING_MODE :: rounding_mode where
  "ROUNDING_MODE = ROUND_HALF_UP"

definition round_to :: "nat \<Rightarrow> rounding_mode \<Rightarrow> rat \<Rightarrow> rat" where
  "round_to dp rm x =
     (let s = \<bar>x\<bar> * 10 ^ dp;
          n = (case rm of
                 ROUND_UP \<Rightarrow> \<lceil>s\<rceil>
               | ROUND_DOWN \<Rightarrow> \<lfloor>s\<rfloor>
               | ROUND_HALF_UP \<Rightarrow> \<lfloor>s + 1 / 2\<rfloor>)
      in sgn x * of_int n / 10 ^ dp)"

text \<open>\<^verbatim>\<open>x.decimalPlaces(dp, rm)\<close>, and the value of the string \<^verbatim>\<open>x.toFixed(dp, rm)\<close>.\<close>

definition decimalPlaces :: "nat \<Rightarrow> rounding_mode \<Rightarrow> jsnum \<Rightarrow> jsnum" where
  "decimalPlaces dp rm v =
     (case v of Finite x \<Rightarrow> Finite (round_to dp rm x) | Infinite \<Rightarrow> Infinite | NaN \<Rightarrow> NaN)"

definition toFixed :: "nat \<Rightarrow> rounding_mode \<Rightarrow> jsnum \<Rightarrow> jsnum" where
  "toFixed dp rm v =
     (case v of Finite x \<Rightarrow> Finite (round_to dp rm x) | Infinite \<Rightarrow> Infinite | NaN \<Rightarrow> NaN)"

text \<open>\<^verbatim>\<open>x.times(y)\<close> is exact; a zero times an infinity is \<^verbatim>\<open>NaN\<close>.\<close>

fun times_bn :: "jsnum \<Rightarrow> jsnum \<Rightarrow> jsnum" where
  "times_bn NaN _ = NaN"
| "times_bn _ NaN = NaN"
| "times_bn (Finite x) (Finite y) = Finite (x * y)"
| "times_bn (Finite x) Infinite = (if x = 0 then NaN else Infinite)"
| "times_bn Infinite (Finite y) = (if y = 0 then NaN else Infinite)"
| "times_bn Infinite Infinite = Infinite"

text \<open>
  \<^verbatim>\<open>x.dividedBy(y)\<close> rounds the quotient to \<^verbatim>\<open>DECIMAL_PLACES\<close> decimals with
  \<^verbatim>\<open>ROUNDING_MODE\<close>. It is \<^verbatim>\<open>NaN\<close> when both are zero or both infinite, zero when \<open>y\<close> is
  infinite, and infinite when \<open>y\<close> is zero or \<open>x\<close> is infinite.
\<close>

fun dividedBy :: "jsnum \<Rightarrow> jsnum \<Rightarrow> jsnum" where
  "dividedBy NaN _ = NaN"
| "dividedBy _ NaN = NaN"
| "dividedBy (Finite x) (Finite y) =
     (if y = 0 then (if x = 0 then NaN else Infinite)
      else Finite (round_to DECIMAL_PLACES ROUNDING_MODE (x / y)))"
| "dividedBy (Finite x) Infinite = Finite 0"
| "dividedBy Infinite (Finite y) = Infinite"
| "dividedBy Infinite Infinite = NaN"

section \<open>Configuration, markets and orders\<close>

text \<open>
  The values a configured \<^verbatim>\<open>base\<close> can take, and the wrapper object that \<^verbatim>\<open>new String\<close>
  creates from one.
\<close>

datatype js_value = Undefined | Str string | StringObject string

fun new_String :: "js_value \<Rightarrow> js_value" where
  "new_String Undefined = StringObject ''undefined''"
| "new_String (Str s) = StringObject s"
| "new_String (StringObject s) = StringObject s"

text \<open>
  Strict equality \<^verbatim>\<open>===\<close>, which a \<^verbatim>\<open>switch\<close> compares its \<^verbatim>\<open>case\<close> labels with. Operands
  of different types are never equal; an object is equal only to itself, and the strategy
  never compares an object with itself.
\<close>

fun strict_equals :: "js_value \<Rightarrow> js_value \<Rightarrow> bool" where
  "strict_equals Undefined Undefined = True"
| "strict_equals (Str a) (Str b) = (a = b)"
| "strict_equals _ _ = False"

record pair =
  symbol :: string
  gridInterval :: rat
  base :: js_value

record config =
  username :: string
  gridLevels :: int
  pairs :: "pair list"

record token =
  precision :: nat
  multiplier :: rat

record market =
  market_id :: nat
  order_min :: rat
  ask_token :: token
  bid_token :: token

record market_details =
  highestBid :: rat
  lowestAsk :: rat
  market :: market
  lastPrice :: rat

text \<open>
  Modelled from the spec: \<^verbatim>\<open>ORDERSIDES\<close> is imported from \<^verbatim>\<open>dexrpc.js\<close>, which is not part
  of the sources at hand; the spec gives the side of an order as the enumeration of
  \<open>BUY\<close> and \<open>SELL\<close>.
\<close>

datatype ORDERSIDES = BUY | SELL

record open_order =
  order_side :: ORDERSIDES
  order_market_id :: nat

text \<open>The object that \<^verbatim>\<open>createBuyOrder\<close> and \<^verbatim>\<open>createSellOrder\<close> return.\<close>

record ladder_order =
  orderSide :: ORDERSIDES
  price :: jsnum
  quantity :: jsnum
  marketSymbol :: string

record order_book =
  bids :: "rat list"
  asks :: "rat list"

text \<open>
  The collaborators of \<^verbatim>\<open>dexapi.js\<close> and \<^verbatim>\<open>dexrpc.js\<close>. A promise that rejects is \<open>Inl\<close> of
  the error's message.
\<close>

record exchange =
  getMarketBySymbol :: "string \<Rightarrow> market option"
  fetchLatestPrice :: "string \<Rightarrow> string + rat"
  fetchOrderBook :: "string \<Rightarrow> nat \<Rightarrow> string + order_book"
  fetchOpenOrders :: "string \<Rightarrow> string + open_order list"
  submitLimitOrder :: "string \<Rightarrow> ORDERSIDES \<Rightarrow> jsnum \<Rightarrow> jsnum \<Rightarrow> string + unit"

section \<open>The market maker strategy\<close>

text \<open>
  \<^verbatim>\<open>getMarketDetails\<close> puts the market it looked up into the details unchecked; for an
  unknown symbol that is \<^verbatim>\<open>undefined\<close>, and the first order built from the details throws
  a \<^verbatim>\<open>TypeError\<close>. The model reports that error here, after the two fetches, so that the
  details always hold a market. Within \<^verbatim>\<open>trade\<close>, \<^verbatim>\<open>getOpenOrders\<close> has thrown for such a
  symbol before.
\<close>

definition getMarketDetails :: "exchange \<Rightarrow> string \<Rightarrow> string + market_details" where
  "getMarketDetails ex marketSym =
     (case fetchLatestPrice ex marketSym of
        Inl message \<Rightarrow> Inl message
      | Inr latest \<Rightarrow>
          (case fetchOrderBook ex marketSym 1 of
             Inl message \<Rightarrow> Inl message
           | Inr orderBook \<Rightarrow>
               (case getMarketBySymbol ex marketSym of
                  None \<Rightarrow> Inl ''Cannot read properties of undefined''
                | Some m \<Rightarrow>
                    Inr \<lparr>highestBid = (case bids orderBook of [] \<Rightarrow> latest | b # _ \<Rightarrow> b),
                         lowestAsk = (case asks orderBook of [] \<Rightarrow> latest | a # _ \<Rightarrow> a),
                         market = m,
                         lastPrice = latest\<rparr>)))"

definition getOpenOrders :: "exchange \<Rightarrow> config \<Rightarrow> string \<Rightarrow> string + open_order list" where
  "getOpenOrders ex cfg marketSym =
     (case getMarketBySymbol ex marketSym of
        None \<Rightarrow> Inl (''Market '' @ marketSym @ '' does not exist'')
      | Some m \<Rightarrow>
          (case fetchOpenOrders ex (username cfg) of
             Inl message \<Rightarrow> Inl message
           | Inr allOrders \<Rightarrow>
               Inr (filter (\<lambda>ord. order_market_id ord = market_id m) allOrders)))"

record quantity_and_total =
  adjustedTotal :: jsnum
  quantityValue :: jsnum

definition getQuantityAndAdjustedTotal ::
  "jsnum \<Rightarrow> jsnum \<Rightarrow> nat \<Rightarrow> nat \<Rightarrow> quantity_and_total" where
  "getQuantityAndAdjustedTotal cost totalCost bidPrecision askPrecision =
     (let qty = unary_plus (toFixed bidPrecision ROUND_UP (dividedBy totalCost cost));
          adjusted = unary_plus (toFixed askPrecision ROUND_UP (times_bn cost qty))
      in \<lparr>adjustedTotal = adjusted, quantityValue = qty\<rparr>)"

definition getGridInterval :: "config \<Rightarrow> string \<Rightarrow> rat" where
  "getGridInterval cfg marketSym =
     fold (\<lambda>p interval. if marketSym = symbol p then gridInterval p else interval)
       (pairs cfg) (1 / 100)"

definition getBase :: "config \<Rightarrow> string \<Rightarrow> js_value" where
  "getBase cfg marketSym =
     fold (\<lambda>p type. if marketSym = symbol p then base p else type)
       (pairs cfg) (Str ''AVERAGE'')"

text \<open>
  The \<^verbatim>\<open>switch\<close> that \<^verbatim>\<open>createBuyOrder\<close> and \<^verbatim>\<open>createSellOrder\<close> both run, word for word the
  same, to choose \<^verbatim>\<open>startPrice\<close>. The average is a \<^verbatim>\<open>dividedBy(2)\<close> of the sum.
\<close>

definition avgPrice :: "market_details \<Rightarrow> rat" where
  "avgPrice marketDetails =
     round_to DECIMAL_PLACES ROUNDING_MODE
       ((lowestAsk marketDetails + highestBid marketDetails) / 2)"

definition startPrice :: "config \<Rightarrow> string \<Rightarrow> market_details \<Rightarrow> rat" where
  "startPrice cfg marketSym marketDetails =
     (let switched = new_String (getBase cfg marketSym)
      in if strict_equals switched (Str ''BID'') then highestBid marketDetails
         else if strict_equals switched (Str ''ASK'') then lowestAsk marketDetails
         else if strict_equals switched (Str ''LAST'') then lastPrice marketDetails
         else avgPrice marketDetails)"

definition minOrder :: "market_details \<Rightarrow> jsnum" where
  "minOrder marketDetails =
     js_divide (order_min (market marketDetails))
       (multiplier (ask_token (market marketDetails)))"

definition buyPrice :: "config \<Rightarrow> string \<Rightarrow> market_details \<Rightarrow> nat \<Rightarrow> rat" where
  "buyPrice cfg marketSym marketDetails index =
     round_to (precision (ask_token (market marketDetails))) ROUND_DOWN
       ((getGridInterval cfg marketSym * (0 - (of_nat index + 1)) + 1)
          * startPrice cfg marketSym marketDetails)"

definition createBuyOrder :: "config \<Rightarrow> string \<Rightarrow> market_details \<Rightarrow> nat \<Rightarrow> ladder_order" where
  "createBuyOrder cfg marketSym marketDetails index =
     (let askPrecision = precision (ask_token (market marketDetails));
          bidPrecision = precision (bid_token (market marketDetails));
          bought = toNumber (buyPrice cfg marketSym marketDetails index);
          totals = getQuantityAndAdjustedTotal bought (minOrder marketDetails)
                     bidPrecision askPrecision
      in \<lparr>orderSide = BUY, price = bought, quantity = adjustedTotal totals,
          marketSymbol = marketSym\<rparr>)"

definition sellPrice :: "config \<Rightarrow> string \<Rightarrow> market_details \<Rightarrow> nat \<Rightarrow> jsnum" where
  "sellPrice cfg marketSym marketDetails index =
     decimalPlaces (precision (ask_token (market marketDetails))) ROUND_UP
       (times_bn (Finite (getGridInterval cfg marketSym * (0 + (of_nat index + 1)) + 1))
          (toNumber (startPrice cfg marketSym marketDetails)))"

definition createSellOrder :: "config \<Rightarrow> string \<Rightarrow> market_details \<Rightarrow> nat \<Rightarrow> ladder_order" where
  "createSellOrder cfg marketSym marketDetails index =
     (let askPrecision = precision (ask_token (market marketDetails));
          bidPrecision = precision (bid_token (market marketDetails));
          sold = unary_plus (sellPrice cfg marketSym marketDetails index);
          totals = getQuantityAndAdjustedTotal sold (minOrder marketDetails)
                     bidPrecision askPrecision
      in \<lparr>orderSide = SELL, price = sold, quantity = quantityValue totals,
          marketSymbol = marketSym\<rparr>)"

text \<open>
  The loop of \<^verbatim>\<open>prepareOrders\<close>, from \<open>index\<close> on, with the running counts and the orders
  pushed so far.
\<close>

function prepareOrders_loop ::
  "config \<Rightarrow> string \<Rightarrow> market_details \<Rightarrow> nat \<Rightarrow> nat \<Rightarrow> nat \<Rightarrow> ladder_order list \<Rightarrow> ladder_order list"
where
  "prepareOrders_loop cfg marketSym marketDetails index numBuys numSells orders =
     (if int index < gridLevels cfg then
        (let buying = (int numBuys < gridLevels cfg);
             orders1 = (if buying
                        then orders @ [createBuyOrder cfg marketSym marketDetails index]
                        else orders);
             numBuys1 = (if buying then numBuys + 1 else numBuys);
             selling = (int numSells < gridLevels cfg);
             orders2 = (if selling
                        then orders1 @ [createSellOrder cfg marketSym marketDetails index]
                        else orders1);
             numSells1 = (if selling then numSells + 1 else numSells)
         in prepareOrders_loop cfg marketSym marketDetails (index + 1)
              numBuys1 numSells1 orders2)
      else orders)"
  by pat_completeness auto
termination
  by (relation "measure (\<lambda>(cfg, s, md, index, nb, ns, os). nat (gridLevels cfg - int index))")
    auto

definition prepareOrders ::
  "config \<Rightarrow> string \<Rightarrow> market_details \<Rightarrow> open_order list \<Rightarrow> ladder_order list" where
  "prepareOrders cfg marketSym marketDetails openOrders =
     prepareOrders_loop cfg marketSym marketDetails 0
       (length (filter (\<lambda>ord. order_side ord = BUY) openOrders))
       (length (filter (\<lambda>ord. order_side ord = SELL) openOrders))
       []"

text \<open>
  What one run of \<^verbatim>\<open>trade\<close> leaves behind: the logger's lines, the limit orders handed to
  \<^verbatim>\<open>submitLimitOrder\<close>, and the messages of the promises that rejected with nobody waiting
  for them.
\<close>

datatype log_entry = Info string | Error string

record outcome =
  logged :: "log_entry list"
  submitted :: "ladder_order list"
  unhandled :: "string list"

definition nothing :: outcome where
  "nothing = \<lparr>logged = [], submitted = [], unhandled = []\<rparr>"

definition log_line :: "log_entry \<Rightarrow> outcome" where
  "log_line entry = \<lparr>logged = [entry], submitted = [], unhandled = []\<rparr>"

definition and_then :: "outcome \<Rightarrow> outcome \<Rightarrow> outcome" where
  "and_then a b =
     \<lparr>logged = logged a @ logged b, submitted = submitted a @ submitted b,
      unhandled = unhandled a @ unhandled b\<rparr>"

text \<open>
  \<^verbatim>\<open>placeOrders\<close> starts one \<^verbatim>\<open>async\<close> callback per order through \<^verbatim>\<open>forEach\<close>, which drops
  the promises the callbacks return: every order is submitted, and a submission that
  rejects is an unhandled rejection, not an exception in the caller.
\<close>

definition submit_one :: "exchange \<Rightarrow> ladder_order \<Rightarrow> outcome" where
  "submit_one ex ord =
     \<lparr>logged = [], submitted = [ord],
      unhandled = (case submitLimitOrder ex (marketSymbol ord) (orderSide ord)
                          (quantity ord) (price ord) of
                     Inl message \<Rightarrow> [message]
                   | Inr _ \<Rightarrow> [])\<rparr>"

definition placeOrders :: "exchange \<Rightarrow> ladder_order list \<Rightarrow> outcome" where
  "placeOrders ex orders = foldr (\<lambda>ord rest. and_then (submit_one ex ord) rest) orders nothing"

text \<open>
  The loop of \<^verbatim>\<open>trade\<close> over the pairs still to visit. The \<^verbatim>\<open>return\<close> of the branch
  "nothing to do" leaves the function, and with it the loop.
\<close>

fun trade_loop :: "exchange \<Rightarrow> config \<Rightarrow> pair list \<Rightarrow> outcome" where
  "trade_loop ex cfg [] = nothing"
| "trade_loop ex cfg (p # rest) =
     and_then
       (log_line (Info (''Executing '' @ symbol p @ '' market maker trades on account ''
                          @ username cfg)))
       (case getOpenOrders ex cfg (symbol p) of
          Inl message \<Rightarrow> and_then (log_line (Error message)) (trade_loop ex cfg rest)
        | Inr openOrders \<Rightarrow>
            if gridLevels cfg
                 \<le> int (length (filter (\<lambda>ord. order_side ord = BUY) openOrders))
               \<and> gridLevels cfg
                 \<le> int (length (filter (\<lambda>ord. order_side ord = SELL) openOrders))
            then log_line (Info (''nothing to do - we have enough orders on the books for ''
                                   @ symbol p))
            else
              (case getMarketDetails ex (symbol p) of
                 Inl message \<Rightarrow> and_then (log_line (Error message)) (trade_loop ex cfg rest)
               | Inr marketDetails \<Rightarrow>
                   and_then
                     (placeOrders ex
                        (prepareOrders cfg (symbol p) marketDetails openOrders))
                     (trade_loop ex cfg rest)))"

definition trade :: "exchange \<Rightarrow> config \<Rightarrow> outcome" where
  "trade ex cfg = trade_loop ex cfg (pairs cfg)"

section \<open>Rounding, as the specification words it\<close>

text \<open>
  A decimal with at most \<open>dp\<close> decimal places; \<open>y\<close> is \<open>x\<close> rounded down (towards zero)
  or up (away from zero) to \<open>dp\<close> decimal places when it is such a decimal, on the same side
  of zero as \<open>x\<close>, and less than one unit of the last place away from \<open>x\<close>.
\<close>

definition is_decimal :: "nat \<Rightarrow> rat \<Rightarrow> bool" where
  "is_decimal dp y \<longleftrightarrow> of_int \<lfloor>y * 10 ^ dp\<rfloor> = y * 10 ^ dp"



section \<open>Scenarios\<close>

definition market_XPR_XUSDC :: market where
  "market_XPR_XUSDC =
     \<lparr>market_id = 1, order_min = 100000,
      ask_token = \<lparr>precision = 6, multiplier = 1000000\<rparr>,
      bid_token = \<lparr>precision = 4, multiplier = 10000\<rparr>\<rparr>"

definition snapshot_100_102 :: market_details where
  "snapshot_100_102 =
     \<lparr>highestBid = 100, lowestAsk = 102, market = market_XPR_XUSDC, lastPrice = 203 / 2\<rparr>"

text \<open>A pair configured with base \<^verbatim>\<open>BID\<close>.\<close>

definition pair_BID :: pair where
  "pair_BID = \<lparr>symbol = ''XPR_XUSDC'', gridInterval = 1 / 100, base = Str ''BID''\<rparr>"

definition config_BID :: config where
  "config_BID = \<lparr>username = ''trader'', gridLevels = 2, pairs = [pair_BID]\<rparr>"

definition config_3 :: config where
  "config_3 = \<lparr>username = ''trader'', gridLevels = 3,
     pairs = [\<lparr>symbol = ''XPR_XUSDC'', gridInterval = 1 / 100, base = Str ''AVERAGE''\<rparr>]\<rparr>"

definition config_dup :: config where
  "config_dup = \<lparr>username = ''trader'', gridLevels = 2,
     pairs = [\<lparr>symbol = ''XPR_XUSDC'', gridInterval = 1 / 100, base = Str ''BID''\<rparr>,
              \<lparr>symbol = ''XPR_XMD'', gridInterval = 1 / 200, base = Str ''ASK''\<rparr>,
              \<lparr>symbol = ''XPR_XUSDC'', gridInterval = 3 / 100, base = Str ''LAST''\<rparr>]\<rparr>"

definition market_XPR_XMD :: market where
  "market_XPR_XMD =
     \<lparr>market_id = 2, order_min = 100000,
      ask_token = \<lparr>precision = 6, multiplier = 1000000\<rparr>,
      bid_token = \<lparr>precision = 4, multiplier = 10000\<rparr>\<rparr>"

text \<open>
  An exchange that lists two markets, where the account already has one buy and one sell
  order resting in the first market and none in the second.
\<close>

definition exchange_first_full :: exchange where
  "exchange_first_full =
     \<lparr>getMarketBySymbol =
        (\<lambda>s. if s = ''XPR_XUSDC'' then Some market_XPR_XUSDC
             else if s = ''XPR_XMD'' then Some market_XPR_XMD else None),
      fetchLatestPrice = (\<lambda>s. Inr 101),
      fetchOrderBook = (\<lambda>s depth. Inr \<lparr>bids = [100], asks = [102]\<rparr>),
      fetchOpenOrders =
        (\<lambda>account. Inr [\<lparr>order_side = BUY, order_market_id = 1\<rparr>,
                          \<lparr>order_side = SELL, order_market_id = 1\<rparr>]),
      submitLimitOrder = (\<lambda>s side size limit. Inr ())\<rparr>"

definition config_two_pairs :: config where
  "config_two_pairs = \<lparr>username = ''trader'', gridLevels = 1,
     pairs = [\<lparr>symbol = ''XPR_XUSDC'', gridInterval = 1 / 100, base = Str ''AVERAGE''\<rparr>,
              \<lparr>symbol = ''XPR_XMD'', gridInterval = 1 / 100, base = Str ''AVERAGE''\<rparr>]\<rparr>"

definition config_unknown_first :: config where
  "config_unknown_first = \<lparr>username = ''trader'', gridLevels = 1,
     pairs = [\<lparr>symbol = ''XDOGE_XUSDC'', gridInterval = 1 / 100, base = Str ''AVERAGE''\<rparr>,
              \<lparr>symbol = ''XPR_XUSDC'', gridInterval = 1 / 100, base = Str ''AVERAGE''\<rparr>,
              \<lparr>symbol = ''XPR_XMD'', gridInterval = 1 / 100, base = Str ''AVERAGE''\<rparr>]\<rparr>"

text \<open>An exchange with no open orders of the account, on which every submission is rejected.\<close>

definition exchange_rejecting :: exchange where
  "exchange_rejecting =
     \<lparr>getMarketBySymbol =
        (\<lambda>s. if s = ''XPR_XUSDC'' then Some market_XPR_XUSDC else None),
      fetchLatestPrice = (\<lambda>s. Inr 101),
      fetchOrderBook = (\<lambda>s depth. Inr \<lparr>bids = [100], asks = [102]\<rparr>),
      fetchOpenOrders = (\<lambda>account. Inr []),
      submitLimitOrder = (\<lambda>s side size limit. Inl ''transaction failed'')\<rparr>"

definition config_one_pair :: config where
  "config_one_pair = \<lparr>username = ''trader'', gridLevels = 1,
     pairs = [\<lparr>symbol = ''XPR_XUSDC'', gridInterval = 1 / 100, base = Str ''AVERAGE''\<rparr>]\<rparr>"

text \<open>
  Scenario A of the specification: two levels, an interval of 0.01, base \<^verbatim>\<open>AVERAGE\<close>, a
  highest bid of 100 and a lowest ask of 102.
\<close>

definition config_A :: config where
  "config_A = \<lparr>username = ''trader'', gridLevels = 2,
     pairs = [\<lparr>symbol = ''XPR_XUSDC'', gridInterval = 1 / 100, base = Str ''AVERAGE''\<rparr>]\<rparr>"

text \<open>
  A market quoted to four decimals, with the best bid at \<open>10\<^sup>-\<^sup>9\<close> and the best ask at
  \<open>10\<^sup>8\<close>: their average has eighteen significant digits.
\<close>

definition market_4dp :: market where
  "market_4dp =
     \<lparr>market_id = 3, order_min = 10000,
      ask_token = \<lparr>precision = 4, multiplier = 10000\<rparr>,
      bid_token = \<lparr>precision = 4, multiplier = 10000\<rparr>\<rparr>"

definition snapshot_wide :: market_details where
  "snapshot_wide =
     \<lparr>highestBid = 1 / 10 ^ 9, lowestAsk = 10 ^ 8, market = market_4dp, lastPrice = 10 ^ 8\<rparr>"


text \<open>
  The decimals inside \<^verbatim>\<open>getQuantityAndAdjustedTotal\<close> for a price other than zero, before
  unary \<^verbatim>\<open>+\<close> turns them into numbers: the quotient as \<^verbatim>\<open>dividedBy\<close> returns it, the
  quantity that \<^verbatim>\<open>toFixed(bidPrecision, BN.ROUND_UP)\<close> prints, and the total that
  \<^verbatim>\<open>toFixed(askPrecision, BN.ROUND_UP)\<close> prints.
\<close>

definition quotient_decimal :: "rat \<Rightarrow> rat \<Rightarrow> rat" where
  "quotient_decimal totalCost cost = round_to DECIMAL_PLACES ROUNDING_MODE (totalCost / cost)"

definition quantity_decimal :: "rat \<Rightarrow> rat \<Rightarrow> nat \<Rightarrow> rat" where
  "quantity_decimal cost totalCost bidPrecision =
     round_to bidPrecision ROUND_UP (quotient_decimal totalCost cost)"

definition total_decimal :: "rat \<Rightarrow> rat \<Rightarrow> nat \<Rightarrow> rat" where
  "total_decimal cost qty askPrecision = round_to askPrecision ROUND_UP (cost * qty)"

section \<open>Properties\<close>

subsection \<open>Rounding to decimal places\<close>

lemma round_to_of_int: "round_to dp rm (of_int k) = of_int k"
proof -
  have "\<bar>rat_of_int k\<bar> * 10 ^ dp = of_int (\<bar>k\<bar> * 10 ^ dp)" by simp
  then have *: "\<lfloor>\<bar>rat_of_int k\<bar> * 10 ^ dp\<rfloor> = \<bar>k\<bar> * 10 ^ dp"
    "\<lceil>\<bar>rat_of_int k\<bar> * 10 ^ dp\<rceil> = \<bar>k\<bar> * 10 ^ dp"
    "\<lfloor>\<bar>rat_of_int k\<bar> * 10 ^ dp + 1 / 2\<rfloor> = \<bar>k\<bar> * 10 ^ dp"
    by (simp_all only: floor_of_int ceiling_of_int) linarith
  show ?thesis
    by (cases rm) (simp_all add: round_to_def * sgn_if)
qed























subsection \<open>Reference price\<close>

lemma new_String_never_primitive: "\<not> strict_equals (new_String v) (Str s)"
  by (cases v) simp_all

lemma startPrice_is_avgPrice: "startPrice cfg msym md = avgPrice md"
  by (simp add: startPrice_def new_String_never_primitive)

text \<open>
  Claim C1. Reference-price selection is to return the snapshot field that the configured
  base names. The code wraps the base in \<^verbatim>\<open>new String\<close> before the \<^verbatim>\<open>switch\<close>, so no
  \<^verbatim>\<open>case\<close> label is ever strictly equal to it and every base takes the default branch:
  with base \<^verbatim>\<open>BID\<close>, highest bid 100 and lowest ask 102 the reference price is the average
  101, not the highest bid.
\<close>

theorem C1_base_BID_yields_average:
  "getBase config_BID ''XPR_XUSDC'' = Str ''BID''
   \<and> highestBid snapshot_100_102 = 100
   \<and> startPrice config_BID ''XPR_XUSDC'' snapshot_100_102 = 101"
  by (simp add: getBase_def config_BID_def pair_BID_def snapshot_100_102_def
      startPrice_is_avgPrice avgPrice_def round_to_of_int [of _ _ 101, simplified])

subsection \<open>Pair configuration lookup\<close>

lemma fold_last_match:
  "fold (\<lambda>p acc. if msym = symbol p then f p else acc) ps d =
     (case find (\<lambda>p. symbol p = msym) (rev ps) of None \<Rightarrow> d | Some p \<Rightarrow> f p)"
  by (induction ps rule: rev_induct) auto

lemma find_append_cases:
  "find P (xs @ ys) = (case find P xs of None \<Rightarrow> find P ys | Some x \<Rightarrow> Some x)"
  by (induction xs) simp_all

lemma find_None_iff_symbol: "find (\<lambda>p. symbol p = msym) (rev ps) = None \<longleftrightarrow> msym \<notin> symbol ` set ps"
  by (auto simp: find_None_iff)

text \<open>
  Claim C10. For a market symbol that no configured pair carries, \<^verbatim>\<open>getGridInterval\<close>
  gives 0.01 and \<^verbatim>\<open>getBase\<close> gives \<^verbatim>\<open>AVERAGE\<close>; when several pairs carry the symbol, the
  values of the last of them in the configured sequence are used.
\<close>

theorem C10_defaults_and_last_match:
  "getGridInterval cfg msym =
     (case find (\<lambda>p. symbol p = msym) (rev (pairs cfg)) of
        None \<Rightarrow> 1 / 100 | Some p \<Rightarrow> gridInterval p)
   \<and> getBase cfg msym =
     (case find (\<lambda>p. symbol p = msym) (rev (pairs cfg)) of
        None \<Rightarrow> Str ''AVERAGE'' | Some p \<Rightarrow> base p)
   \<and> (msym \<notin> symbol ` set (pairs cfg) \<longrightarrow>
        getGridInterval cfg msym = 1 / 100 \<and> getBase cfg msym = Str ''AVERAGE'')
   \<and> (\<forall>before p after. pairs cfg = before @ p # after \<and> symbol p = msym
          \<and> msym \<notin> symbol ` set after \<longrightarrow>
        getGridInterval cfg msym = gridInterval p \<and> getBase cfg msym = base p)"
proof -
  have a: "getGridInterval cfg msym =
     (case find (\<lambda>p. symbol p = msym) (rev (pairs cfg)) of
        None \<Rightarrow> 1 / 100 | Some p \<Rightarrow> gridInterval p)"
    unfolding getGridInterval_def by (rule fold_last_match)
  have b: "getBase cfg msym =
     (case find (\<lambda>p. symbol p = msym) (rev (pairs cfg)) of
        None \<Rightarrow> Str ''AVERAGE'' | Some p \<Rightarrow> base p)"
    unfolding getBase_def by (rule fold_last_match)
  have c: "find (\<lambda>p. symbol p = msym) (rev (pairs cfg)) = None"
    if "msym \<notin> symbol ` set (pairs cfg)"
    using that by (simp add: find_None_iff_symbol)
  have d: "find (\<lambda>p. symbol p = msym) (rev (pairs cfg)) = Some p"
    if "pairs cfg = before @ p # after" "symbol p = msym" "msym \<notin> symbol ` set after"
    for before p after
  proof -
    have "find (\<lambda>p. symbol p = msym) (rev after) = None"
      using that(3) by (simp add: find_None_iff_symbol)
    then show ?thesis
      using that(1,2) by (simp add: find_append_cases)
  qed
  show ?thesis
  proof (intro conjI allI impI)
    show "getGridInterval cfg msym = 1 / 100" if "msym \<notin> symbol ` set (pairs cfg)"
      using a c [OF that] by simp
    show "getBase cfg msym = Str ''AVERAGE''" if "msym \<notin> symbol ` set (pairs cfg)"
      using b c [OF that] by simp
    show "getGridInterval cfg msym = gridInterval p"
      if "pairs cfg = before @ p # after \<and> symbol p = msym \<and> msym \<notin> symbol ` set after"
      for before p after
      using a d [of before p after] that by simp
    show "getBase cfg msym = base p"
      if "pairs cfg = before @ p # after \<and> symbol p = msym \<and> msym \<notin> symbol ` set after"
      for before p after
      using b d [of before p after] that by simp
  qed (rule a, rule b)
qed

theorem C10_defaults_and_last_match_witness:
  "getGridInterval config_dup ''XBTC_XUSDC'' = 1 / 100
   \<and> getBase config_dup ''XBTC_XUSDC'' = Str ''AVERAGE''
   \<and> getGridInterval config_dup ''XPR_XUSDC'' = 3 / 100
   \<and> getBase config_dup ''XPR_XUSDC'' = Str ''LAST''"
proof -
  have none: "''XBTC_XUSDC'' \<notin> symbol ` set (pairs config_dup)"
    by (simp add: config_dup_def)
  have last: "pairs config_dup =
      [\<lparr>symbol = ''XPR_XUSDC'', gridInterval = 1 / 100, base = Str ''BID''\<rparr>,
       \<lparr>symbol = ''XPR_XMD'', gridInterval = 1 / 200, base = Str ''ASK''\<rparr>]
      @ \<lparr>symbol = ''XPR_XUSDC'', gridInterval = 3 / 100, base = Str ''LAST''\<rparr> # []
    \<and> symbol \<lparr>symbol = ''XPR_XUSDC'', gridInterval = 3 / 100, base = Str ''LAST''\<rparr>
        = ''XPR_XUSDC''
    \<and> ''XPR_XUSDC'' \<notin> symbol ` set []"
    by (simp add: config_dup_def)
  from C10_defaults_and_last_match [of config_dup "''XBTC_XUSDC''"] none
  have 1: "getGridInterval config_dup ''XBTC_XUSDC'' = 1 / 100
           \<and> getBase config_dup ''XBTC_XUSDC'' = Str ''AVERAGE''"
    by blast
  from C10_defaults_and_last_match [of config_dup "''XPR_XUSDC''"] last
  have 2: "getGridInterval config_dup ''XPR_XUSDC'' = 3 / 100
           \<and> getBase config_dup ''XPR_XUSDC'' = Str ''LAST''"
    by (metis pair.select_convs(2,3))
  from 1 2 show ?thesis by blast
qed

subsection \<open>Submitted sizes\<close>


subsection \<open>Reconciliation\<close>

lemma orderSide_create [simp]:
  "orderSide (createBuyOrder cfg msym md index) = BUY"
  "orderSide (createSellOrder cfg msym md index) = SELL"
  by (simp_all add: createBuyOrder_def createSellOrder_def Let_def)

declare prepareOrders_loop.simps [simp del]

lemma loop_step:
  "int i < gridLevels cfg \<Longrightarrow>
   prepareOrders_loop cfg msym md i nb ns os =
     prepareOrders_loop cfg msym md (Suc i)
       (if int nb < gridLevels cfg then Suc nb else nb)
       (if int ns < gridLevels cfg then Suc ns else ns)
       (os @ (if int nb < gridLevels cfg then [createBuyOrder cfg msym md i] else [])
           @ (if int ns < gridLevels cfg then [createSellOrder cfg msym md i] else []))"
  by (subst prepareOrders_loop.simps) (simp add: Let_def)

lemma loop_stop:
  "\<not> int i < gridLevels cfg \<Longrightarrow> prepareOrders_loop cfg msym md i nb ns os = os"
  by (subst prepareOrders_loop.simps) simp

lemma upt_shift: "[i ..< i + Suc k] = i # [Suc i ..< Suc i + k]"
  by (simp add: upt_rec [of i])

lemma loop_buys:
  "filter (\<lambda>ord. orderSide ord = BUY) (prepareOrders_loop cfg msym md i nb ns os) =
     filter (\<lambda>ord. orderSide ord = BUY) os
       @ map (createBuyOrder cfg msym md)
           [i ..< i + nat (min (gridLevels cfg - int i) (gridLevels cfg - int nb))]"
proof (induction "nat (gridLevels cfg - int i)" arbitrary: i nb ns os)
  case 0
  then have "\<not> int i < gridLevels cfg" by simp
  then show ?case by (simp add: loop_stop)
next
  case (Suc n)
  let ?k = "\<lambda>i nb. nat (min (gridLevels cfg - int i) (gridLevels cfg - int nb))"
  from Suc.hyps(2) have running: "int i < gridLevels cfg" by simp
  from Suc.hyps(2) have n: "n = nat (gridLevels cfg - int (Suc i))" by simp
  note IH = Suc.hyps(1) [OF n]
  show ?case
  proof (cases "int nb < gridLevels cfg")
    case True
    have "?k i nb = Suc (?k (Suc i) (Suc nb))"
      using running True by auto
    then have "[i ..< i + ?k i nb] = i # [Suc i ..< Suc i + ?k (Suc i) (Suc nb)]"
      by (simp only: upt_shift)
    then show ?thesis
      using running True by (simp add: loop_step IH del: upt_Suc)
  next
    case False
    then have "?k i nb = 0" "?k (Suc i) nb = 0"
      by auto
    then show ?thesis
      using running False by (simp add: loop_step IH del: upt_Suc)
  qed
qed

lemma loop_sells:
  "filter (\<lambda>ord. orderSide ord = SELL) (prepareOrders_loop cfg msym md i nb ns os) =
     filter (\<lambda>ord. orderSide ord = SELL) os
       @ map (createSellOrder cfg msym md)
           [i ..< i + nat (min (gridLevels cfg - int i) (gridLevels cfg - int ns))]"
proof (induction "nat (gridLevels cfg - int i)" arbitrary: i nb ns os)
  case 0
  then have "\<not> int i < gridLevels cfg" by simp
  then show ?case by (simp add: loop_stop)
next
  case (Suc n)
  let ?k = "\<lambda>i ns. nat (min (gridLevels cfg - int i) (gridLevels cfg - int ns))"
  from Suc.hyps(2) have running: "int i < gridLevels cfg" by simp
  from Suc.hyps(2) have n: "n = nat (gridLevels cfg - int (Suc i))" by simp
  note IH = Suc.hyps(1) [OF n]
  show ?case
  proof (cases "int ns < gridLevels cfg")
    case True
    have "?k i ns = Suc (?k (Suc i) (Suc ns))"
      using running True by auto
    then have "[i ..< i + ?k i ns] = i # [Suc i ..< Suc i + ?k (Suc i) (Suc ns)]"
      by (simp only: upt_shift)
    then show ?thesis
      using running True by (simp add: loop_step IH del: upt_Suc)
  next
    case False
    then have "?k i ns = 0" "?k (Suc i) ns = 0"
      by auto
    then show ?thesis
      using running False by (simp add: loop_step IH del: upt_Suc)
  qed
qed

lemma length_by_sides:
  "length os = length (filter (\<lambda>ord. orderSide ord = BUY) os)
             + length (filter (\<lambda>ord. orderSide ord = SELL) os)"
  for os :: "ladder_order list"
proof (induction os)
  case Nil
  show ?case by simp
next
  case (Cons a os)
  then show ?case by (cases "orderSide a") simp_all
qed

text \<open>
  Claim C3. With \<open>b\<close> open buy orders and \<open>s\<close> open sell orders, \<^verbatim>\<open>prepareOrders\<close> emits
  the buy orders of the ladder indices \<open>0, \<dots>, gridLevels - b - 1\<close> and the sell orders of
  the indices \<open>0, \<dots>, gridLevels - s - 1\<close>, and nothing else: none on a side that is
  already full, never more than \<open>gridLevels\<close> per side.
\<close>

theorem C3_missing_orders:
  "(let missingBuys =
          nat (gridLevels cfg
               - int (length (filter (\<lambda>ord. order_side ord = BUY) openOrders)));
        missingSells =
          nat (gridLevels cfg
               - int (length (filter (\<lambda>ord. order_side ord = SELL) openOrders)));
        prepared = prepareOrders cfg msym md openOrders
    in filter (\<lambda>ord. orderSide ord = BUY) prepared
         = map (createBuyOrder cfg msym md) [0 ..< missingBuys]
     \<and> filter (\<lambda>ord. orderSide ord = SELL) prepared
         = map (createSellOrder cfg msym md) [0 ..< missingSells]
     \<and> length prepared = missingBuys + missingSells
     \<and> missingBuys \<le> nat (gridLevels cfg) \<and> missingSells \<le> nat (gridLevels cfg))"
proof -
  let ?mb = "nat (gridLevels cfg
                  - int (length (filter (\<lambda>ord. order_side ord = BUY) openOrders)))"
  let ?ms = "nat (gridLevels cfg
                  - int (length (filter (\<lambda>ord. order_side ord = SELL) openOrders)))"
  have b: "filter (\<lambda>ord. orderSide ord = BUY) (prepareOrders cfg msym md openOrders)
           = map (createBuyOrder cfg msym md) [0 ..< ?mb]"
    unfolding prepareOrders_def by (simp add: loop_buys min_def)
  have s: "filter (\<lambda>ord. orderSide ord = SELL) (prepareOrders cfg msym md openOrders)
           = map (createSellOrder cfg msym md) [0 ..< ?ms]"
    unfolding prepareOrders_def by (simp add: loop_sells min_def)
  have l: "length (prepareOrders cfg msym md openOrders) = ?mb + ?ms"
    by (subst length_by_sides) (simp add: b s)
  have m: "?mb \<le> nat (gridLevels cfg)" "?ms \<le> nat (gridLevels cfg)"
    by linarith+
  show ?thesis
    unfolding Let_def using b s l m by blast
qed

theorem C3_missing_orders_witness:
  "filter (\<lambda>ord. orderSide ord = BUY) (prepareOrders config_3 ''XPR_XUSDC'' snapshot_100_102 [])
     = [createBuyOrder config_3 ''XPR_XUSDC'' snapshot_100_102 0,
        createBuyOrder config_3 ''XPR_XUSDC'' snapshot_100_102 1,
        createBuyOrder config_3 ''XPR_XUSDC'' snapshot_100_102 2]
   \<and> filter (\<lambda>ord. orderSide ord = SELL) (prepareOrders config_3 ''XPR_XUSDC'' snapshot_100_102 [])
     = [createSellOrder config_3 ''XPR_XUSDC'' snapshot_100_102 0,
        createSellOrder config_3 ''XPR_XUSDC'' snapshot_100_102 1,
        createSellOrder config_3 ''XPR_XUSDC'' snapshot_100_102 2]
   \<and> length (prepareOrders config_3 ''XPR_XUSDC'' snapshot_100_102 []) = 6"
proof -
  have g: "gridLevels config_3 = 3" by (simp add: config_3_def)
  have u: "[0 ..< 3] = [0, 1, 2::nat]" by code_simp
  show ?thesis
    using C3_missing_orders [of config_3 "[]" "''XPR_XUSDC''" snapshot_100_102]
    by (simp add: Let_def g u)
qed

subsection \<open>The strategy cycle\<close>

lemma and_then_nothing [simp]: "and_then a nothing = a" "and_then nothing a = a"
  by (simp_all add: and_then_def nothing_def)

lemma logged_and_then [simp]: "logged (and_then a b) = logged a @ logged b"
  by (simp add: and_then_def)

lemma unhandled_and_then [simp]: "unhandled (and_then a b) = unhandled a @ unhandled b"
  by (simp add: and_then_def)

lemma submitted_and_then [simp]: "submitted (and_then a b) = submitted a @ submitted b"
  by (simp add: and_then_def)

lemma logged_placeOrders [simp]: "logged (placeOrders ex os) = []"
  by (induction os) (simp_all add: placeOrders_def nothing_def submit_one_def)

text \<open>
  An error thrown inside the \<^verbatim>\<open>try\<close> block is caught, its message is logged and the loop
  goes on with the pairs that follow.
\<close>

lemma thrown_error_is_logged:
  "getOpenOrders ex cfg (symbol p) = Inl message \<Longrightarrow>
   trade_loop ex cfg (p # rest) =
     and_then
       (log_line (Info (''Executing '' @ symbol p @ '' market maker trades on account ''
                          @ username cfg)))
       (and_then (log_line (Error message)) (trade_loop ex cfg rest))"
  by simp

text \<open>
  Once a pair has enough orders on both sides, the cycle is over, whatever pairs follow.
\<close>

lemma enough_orders_ends_the_cycle:
  "getOpenOrders ex cfg (symbol p) = Inr openOrders \<Longrightarrow>
   gridLevels cfg \<le> int (length (filter (\<lambda>ord. order_side ord = BUY) openOrders)) \<Longrightarrow>
   gridLevels cfg \<le> int (length (filter (\<lambda>ord. order_side ord = SELL) openOrders)) \<Longrightarrow>
   trade_loop ex cfg (p # rest) = trade_loop ex cfg [p]"
  by simp

lemma getOpenOrders_ignores_submission:
  "getOpenOrders (ex\<lparr>submitLimitOrder := f\<rparr>) cfg msym = getOpenOrders ex cfg msym"
  by (simp add: getOpenOrders_def split: option.splits sum.splits)

lemma getMarketDetails_ignores_submission:
  "getMarketDetails (ex\<lparr>submitLimitOrder := f\<rparr>) msym = getMarketDetails ex msym"
  by (simp add: getMarketDetails_def split: option.splits sum.splits)

text \<open>
  No line of the log depends on how the submissions end: \<^verbatim>\<open>trade\<close> logs the same whatever
  \<^verbatim>\<open>submitLimitOrder\<close> answers.
\<close>

lemma submission_outcome_never_logged:
  "logged (trade_loop (ex\<lparr>submitLimitOrder := f\<rparr>) cfg ps) = logged (trade_loop ex cfg ps)"
proof (induction ps)
  case Nil
  show ?case by simp
next
  case (Cons p ps)
  then show ?case
    by (simp add: getOpenOrders_ignores_submission getMarketDetails_ignores_submission
        split: sum.splits)
qed

text \<open>
  Claim C2. A pair that already has enough buy and sell orders is to be skipped, and the
  pairs after it processed. In the code the branch ends in \<^verbatim>\<open>return\<close>: with one buy and
  one sell order open in the first market and \<open>gridLevels = 1\<close>, the cycle logs that there is
  nothing to do for the first pair and stops; the second pair, which has no open order,
  is never looked at.
\<close>

theorem C2_enough_orders_ends_cycle:
  "trade exchange_first_full config_two_pairs =
     \<lparr>logged = [Info ''Executing XPR_XUSDC market maker trades on account trader'',
                Info ''nothing to do - we have enough orders on the books for XPR_XUSDC''],
      submitted = [], unhandled = []\<rparr>
   \<and> getOpenOrders exchange_first_full config_two_pairs ''XPR_XMD'' = Inr []"
  by (simp add: trade_def config_two_pairs_def exchange_first_full_def getOpenOrders_def
      market_XPR_XUSDC_def market_XPR_XMD_def and_then_def log_line_def)

lemma prepareOrders_one_level:
  "gridLevels cfg = 1 \<Longrightarrow>
   prepareOrders cfg msym md [] = [createBuyOrder cfg msym md 0, createSellOrder cfg msym md 0]"
  by (simp add: prepareOrders_def loop_step loop_stop)

text \<open>
  Claim C8. Every error raised while a pair is processed is to be caught at the pair
  boundary and logged, and all remaining pairs are to be processed. Two runs of the code
  where this fails: an unknown first market is logged, but the second pair has enough
  orders and its \<^verbatim>\<open>return\<close> ends the cycle before the third pair; and when every
  submission is rejected, the rejections reach no \<^verbatim>\<open>catch\<close> and no log line.
\<close>

theorem C8_errors_not_all_caught:
  "trade exchange_first_full config_unknown_first =
     \<lparr>logged = [Info ''Executing XDOGE_XUSDC market maker trades on account trader'',
                Error ''Market XDOGE_XUSDC does not exist'',
                Info ''Executing XPR_XUSDC market maker trades on account trader'',
                Info ''nothing to do - we have enough orders on the books for XPR_XUSDC''],
      submitted = [], unhandled = []\<rparr>
   \<and> logged (trade exchange_rejecting config_one_pair) =
       [Info ''Executing XPR_XUSDC market maker trades on account trader'']
   \<and> unhandled (trade exchange_rejecting config_one_pair) =
       [''transaction failed'', ''transaction failed'']"
proof -
  have a: "trade exchange_first_full config_unknown_first =
     \<lparr>logged = [Info ''Executing XDOGE_XUSDC market maker trades on account trader'',
                Error ''Market XDOGE_XUSDC does not exist'',
                Info ''Executing XPR_XUSDC market maker trades on account trader'',
                Info ''nothing to do - we have enough orders on the books for XPR_XUSDC''],
      submitted = [], unhandled = []\<rparr>"
    by (simp add: trade_def config_unknown_first_def exchange_first_full_def getOpenOrders_def
        market_XPR_XUSDC_def market_XPR_XMD_def and_then_def log_line_def)
  have g: "gridLevels config_one_pair = 1"
    by (simp add: config_one_pair_def)
  have t: "trade exchange_rejecting config_one_pair =
      and_then (log_line (Info ''Executing XPR_XUSDC market maker trades on account trader''))
        (placeOrders exchange_rejecting
           [createBuyOrder config_one_pair ''XPR_XUSDC''
              \<lparr>highestBid = 100, lowestAsk = 102, market = market_XPR_XUSDC, lastPrice = 101\<rparr> 0,
            createSellOrder config_one_pair ''XPR_XUSDC''
              \<lparr>highestBid = 100, lowestAsk = 102, market = market_XPR_XUSDC, lastPrice = 101\<rparr> 0])"
  proof -
    have p: "pairs config_one_pair =
        [\<lparr>symbol = ''XPR_XUSDC'', gridInterval = 1 / 100, base = Str ''AVERAGE''\<rparr>]"
      and u: "username config_one_pair = ''trader''"
      by (simp_all add: config_one_pair_def)
    show ?thesis
      by (simp add: trade_def prepareOrders_one_level [OF g] p u g exchange_rejecting_def
          getOpenOrders_def getMarketDetails_def)
  qed
  have b: "logged (trade exchange_rejecting config_one_pair) =
       [Info ''Executing XPR_XUSDC market maker trades on account trader'']"
    by (simp add: t log_line_def)
  have c: "unhandled (trade exchange_rejecting config_one_pair) =
       [''transaction failed'', ''transaction failed'']"
    by (subst t) (simp add: log_line_def placeOrders_def submit_one_def nothing_def
        exchange_rejecting_def)
  from a b c show ?thesis by blast
qed

subsection \<open>Ladder prices\<close>

lemma toNumber_101: "toNumber 101 = Finite 101"
  by code_simp

lemma toNumber_99_99: "toNumber (9999 / 100) = Finite (9999 / 100)"
  by code_simp

lemma toNumber_102_01: "toNumber (10201 / 100) = Finite (10201 / 100)"
  by code_simp

lemma startPrice_A: "startPrice config_A ''XPR_XUSDC'' snapshot_100_102 = 101"
  by (simp add: startPrice_is_avgPrice avgPrice_def snapshot_100_102_def
      round_to_of_int [of _ _ 101, simplified])

lemma buyPrice_A: "buyPrice config_A ''XPR_XUSDC'' snapshot_100_102 0 = 9999 / 100"
  by code_simp

lemma sellPrice_exact:
  assumes "toNumber (startPrice cfg msym md) = Finite (startPrice cfg msym md)"
  shows "sellPrice cfg msym md index =
     Finite (round_to (precision (ask_token (market md))) ROUND_UP
       (startPrice cfg msym md * (1 + getGridInterval cfg msym * (of_nat index + 1))))"
proof -
  have "(getGridInterval cfg msym * (0 + (of_nat index + 1)) + 1) * startPrice cfg msym md
        = startPrice cfg msym md * (1 + getGridInterval cfg msym * (of_nat index + 1))"
    by (simp add: algebra_simps)
  then show ?thesis
    by (simp only: sellPrice_def assms times_bn.simps decimalPlaces_def jsnum.case)
qed



lemma toNumber_average_wide:
  "toNumber (100000000000000001 / 2000000000) = Finite 50000000"
  by code_simp

lemma toNumber_50500000: "toNumber 50500000 = Finite 50500000"
  by code_simp

lemma startPrice_wide:
  "startPrice config_A ''XPR_XUSDC'' snapshot_wide = 100000000000000001 / 2000000000"
  unfolding startPrice_is_avgPrice by code_simp

text \<open>
  Claim C5. The price of the sell order is to be the reference price times
  \<open>1 + interval * (index + 1)\<close>, rounded up to the decimal places of the ask token, in
  decimal arithmetic. \<^verbatim>\<open>createSellOrder\<close> multiplies by \<^verbatim>\<open>Math.max(startPrice)\<close>, which turns
  the reference price into a binary floating point number first. With the best bid at
  \<open>10\<^sup>-\<^sup>9\<close> and the best ask at \<open>10\<^sup>8\<close> the reference price 50000000.0000000005 becomes
  50000000, and the sell price at index 0 is 50500000 where the decimal computation
  gives 50500000.0001.
\<close>

theorem C5_sell_price_through_binary64:
  "startPrice config_A ''XPR_XUSDC'' snapshot_wide = 500000000000000005 / 10 ^ 10
   \<and> price (createSellOrder config_A ''XPR_XUSDC'' snapshot_wide 0) = Finite 50500000
   \<and> round_to (precision (ask_token (market snapshot_wide))) ROUND_UP
        (startPrice config_A ''XPR_XUSDC'' snapshot_wide
           * (1 + getGridInterval config_A ''XPR_XUSDC'' * (of_nat 0 + 1)))
      = 505000000001 / 10000"
proof -
  have g: "getGridInterval config_A ''XPR_XUSDC'' = 1 / 100"
    by (simp add: getGridInterval_def config_A_def)
  have p: "precision (ask_token (market snapshot_wide)) = 4"
    by (simp add: snapshot_wide_def market_4dp_def)
  have s: "sellPrice config_A ''XPR_XUSDC'' snapshot_wide 0 = Finite 50500000"
    by (simp add: sellPrice_def g p startPrice_wide toNumber_average_wide decimalPlaces_def
        round_to_of_int [of _ _ 50500000, simplified])
  have c: "price (createSellOrder config_A ''XPR_XUSDC'' snapshot_wide 0) = Finite 50500000"
    by (simp add: createSellOrder_def Let_def s unary_plus_def toNumber_50500000)
  have r: "round_to 4 ROUND_UP (500000000000000005 / 10 ^ 10 * (1 + 1 / 100 * (of_nat 0 + 1)))
           = 505000000001 / 10000"
    by code_simp
  show ?thesis
    using c r by (simp add: startPrice_wide g p)
qed












subsection \<open>Quantity and adjusted total\<close>






lemma getQuantityAndAdjustedTotal_exact:
  assumes "cost \<noteq> 0"
    and "toNumber (quantity_decimal cost totalCost bp) = Finite (quantity_decimal cost totalCost bp)"
    and "toNumber (total_decimal cost (quantity_decimal cost totalCost bp) ap)
         = Finite (total_decimal cost (quantity_decimal cost totalCost bp) ap)"
  shows "getQuantityAndAdjustedTotal (Finite cost) (Finite totalCost) bp ap =
           \<lparr>adjustedTotal = Finite (total_decimal cost (quantity_decimal cost totalCost bp) ap),
            quantityValue = Finite (quantity_decimal cost totalCost bp)\<rparr>"
proof -
  let ?qd = "quantity_decimal cost totalCost bp"
  let ?at = "total_decimal cost ?qd ap"
  have qty: "unary_plus (toFixed bp ROUND_UP (dividedBy (Finite totalCost) (Finite cost)))
        = Finite ?qd"
    using assms(1,2)
    by (simp add: toFixed_def unary_plus_def quantity_decimal_def quotient_decimal_def)
  have tot: "unary_plus (toFixed ap ROUND_UP (times_bn (Finite cost) (Finite ?qd))) = Finite ?at"
    using assms(3) by (simp add: toFixed_def unary_plus_def total_decimal_def)
  show ?thesis
    by (simp only: getQuantityAndAdjustedTotal_def Let_def qty tot)
qed


lemma toNumber_0_0011: "toNumber (11 / 10000) = Finite (11 / 10000)"
  by code_simp

lemma toNumber_0_109989: "toNumber (109989 / 1000000) = Finite (109989 / 1000000)"
  by code_simp



lemma decimals_99_99:
  "quantity_decimal (9999 / 100) (1 / 10) 4 = 11 / 10000"
  "total_decimal (9999 / 100) (11 / 10000) 6 = 109989 / 1000000"
  "\<not> is_decimal 4 (quotient_decimal (1 / 10) (9999 / 100))"
  by code_simp+





text \<open>
  The quantity is a JavaScript number. For a price of 0.0000003, a target cost of 100 and
  eight decimal places the decimal quantity 333333333.33333334 has seventeen significant
  digits; read as a number it is 333333333.3333333, and the price times that is below the
  target cost.
\<close>

lemma quantity_read_as_number:
  "quantity_decimal (3 / 10000000) 100 8 = 16666666666666667 / 50000000
   \<and> getQuantityAndAdjustedTotal (Finite (3 / 10000000)) (Finite 100) 8 4 =
       \<lparr>adjustedTotal = Finite 100, quantityValue = Finite (3333333333333333 / 10000000)\<rparr>
   \<and> (3 / 10000000 :: rat) * (3333333333333333 / 10000000) < 100"
  by code_simp

subsection \<open>Scenario A\<close>

lemma minOrder_A: "minOrder snapshot_100_102 = Finite (1 / 10)"
  by code_simp

lemma toNumber_0_001: "toNumber (1 / 1000) = Finite (1 / 1000)"
  by code_simp

lemma toNumber_0_10201: "toNumber (10201 / 100000) = Finite (10201 / 100000)"
  by code_simp

lemma decimals_102_01:
  "quantity_decimal (10201 / 100) (1 / 10) 4 = 1 / 1000"
  "total_decimal (10201 / 100) (1 / 1000) 6 = 10201 / 100000"
  by code_simp+

text \<open>
  From the reference price 101 the buy order at index 0 is priced at 99.99 and sized by
  the adjusted total 0.109989; the sell order is priced at 102.01 and sized by the
  quantity 0.001.
\<close>

lemma scenario_A_orders:
  "createBuyOrder config_A ''XPR_XUSDC'' snapshot_100_102 0 =
     \<lparr>orderSide = BUY, price = Finite (9999 / 100), quantity = Finite (109989 / 1000000),
      marketSymbol = ''XPR_XUSDC''\<rparr>
   \<and> createSellOrder config_A ''XPR_XUSDC'' snapshot_100_102 0 =
     \<lparr>orderSide = SELL, price = Finite (10201 / 100), quantity = Finite (1 / 1000),
      marketSymbol = ''XPR_XUSDC''\<rparr>"
proof -
  have p: "precision (ask_token (market snapshot_100_102)) = 6"
    "precision (bid_token (market snapshot_100_102)) = 4"
    by (simp_all add: snapshot_100_102_def market_XPR_XUSDC_def)
  have e: "toNumber (startPrice config_A ''XPR_XUSDC'' snapshot_100_102)
           = Finite (startPrice config_A ''XPR_XUSDC'' snapshot_100_102)"
    by (simp add: startPrice_A toNumber_101)
  have g: "getGridInterval config_A ''XPR_XUSDC'' = 1 / 100"
    by (simp add: getGridInterval_def config_A_def)
  have r: "round_to 6 ROUND_UP (101 * (1 + 1 / 100 * (of_nat 0 + 1))) = 10201 / 100"
    by code_simp
  have s: "sellPrice config_A ''XPR_XUSDC'' snapshot_100_102 0 = Finite (10201 / 100)"
    unfolding sellPrice_exact [OF e] startPrice_A g p
    using r by simp
  have nz: "(9999 / 100 :: rat) \<noteq> 0" "(10201 / 100 :: rat) \<noteq> 0" by simp_all
  have b: "getQuantityAndAdjustedTotal (Finite (9999 / 100)) (Finite (1 / 10)) 4 6 =
      \<lparr>adjustedTotal = Finite (109989 / 1000000), quantityValue = Finite (11 / 10000)\<rparr>"
    using getQuantityAndAdjustedTotal_exact [OF nz(1), of "1 / 10" 4 6]
    unfolding decimals_99_99 by (simp add: toNumber_0_0011 toNumber_0_109989)
  have c: "getQuantityAndAdjustedTotal (Finite (10201 / 100)) (Finite (1 / 10)) 4 6 =
      \<lparr>adjustedTotal = Finite (10201 / 100000), quantityValue = Finite (1 / 1000)\<rparr>"
    using getQuantityAndAdjustedTotal_exact [OF nz(2), of "1 / 10" 4 6]
    unfolding decimals_102_01 by (simp add: toNumber_0_001 toNumber_0_10201)
  show ?thesis
    unfolding createBuyOrder_def createSellOrder_def Let_def buyPrice_A s p minOrder_A
      unary_plus_def jsnum.case toNumber_99_99 toNumber_102_01 b c
    by simp
qed

end
